theory Spec2Isabelle
  imports Main
begin

section \<open>The Result type of ts-res (src/lib/main.ts)\<close>

subsection \<open>Values\<close>

text \<open>
  An \<^verbatim>\<open>Error\<close> object (or an object of a class extending it) lives in a store and is
  referred to by its address, because \<^verbatim>\<open>throwErr\<close> assigns to its \<^verbatim>\<open>message\<close> field and
  then throws that very object. The record has the one field the library touches; all
  further fields of a subclass (such as \<^verbatim>\<open>errorType\<close> of the test suite's
  \<^verbatim>\<open>CustomError\<close>) are the extension part of the record scheme.

  An assignment to \<^verbatim>\<open>message\<close> does not always succeed: the object may be frozen
  (\<^verbatim>\<open>Object.freeze\<close>), or its \<^verbatim>\<open>message\<close> may be a property that is not writable or that
  has a getter and no setter. \<^verbatim>\<open>writable\<close> says whether the assignment succeeds. The
  source is a module, hence strict code, in which a failed assignment throws a
  \<^verbatim>\<open>TypeError\<close>.
\<close>

type_synonym addr = nat

record error_obj =
  message :: string
  writable :: bool

type_synonym 'z heap = "addr \<Rightarrow> 'z error_obj_scheme"

text \<open>\<^verbatim>\<open>ErrType = string | Error | undefined | void\<close>\<close>

datatype err = Undefined | Str string | Obj addr

text \<open>
  \<^verbatim>\<open>Result<T, E> = { ok: true; data: T } | { ok: false; error: E }\<close>, a union discriminated
  by \<^verbatim>\<open>ok\<close>. The four method fields hold the same four functions in every Result and
  are modelled as functions taking the Result (\<^verbatim>\<open>this\<close>) as their first argument.
\<close>

datatype 't result = Success (data: 't) | Failure (error: err)

primrec ok :: "'t result \<Rightarrow> bool" where
  "ok (Success d) = True"
| "ok (Failure e) = False"

text \<open>
  What a call does: it returns a value or it throws one. \<^verbatim>\<open>throwErr\<close> throws either a
  newly constructed \<^verbatim>\<open>Error\<close>, which nothing else refers to and which is therefore given
  by its message, or the error object of the Result, given by its address, or the
  \<^verbatim>\<open>TypeError\<close> of a failed assignment (its message is the engine's own).
\<close>

datatype ('t, 'x) outcome = Return 't | Raise 'x

datatype thrown = NewError string | Thrown addr | TypeError

subsection \<open>JavaScript operators on \<^verbatim>\<open>string | undefined\<close>\<close>

text \<open>A value of type \<^verbatim>\<open>string | undefined\<close> is truthy unless it is \<^verbatim>\<open>undefined\<close> or \<^verbatim>\<open>""\<close>.\<close>

definition truthy :: "string option \<Rightarrow> bool" where
  "truthy v = (case v of None \<Rightarrow> False | Some s \<Rightarrow> s \<noteq> [])"

text \<open>\<^verbatim>\<open>a || b\<close> is \<^verbatim>\<open>a\<close> when \<^verbatim>\<open>a\<close> is truthy and \<^verbatim>\<open>b\<close> otherwise.\<close>

definition js_or :: "string option \<Rightarrow> string option \<Rightarrow> string option" where
  "js_or a b = (if truthy a then a else b)"

text \<open>\<^verbatim>\<open>new Error(m)\<close>; the message of \<^verbatim>\<open>new Error(undefined)\<close> is the empty string.\<close>

primrec new_Error :: "string option \<Rightarrow> thrown" where
  "new_Error None = NewError []"
| "new_Error (Some s) = NewError s"

text \<open>The operand \<^verbatim>\<open>this.error\<close> where its type has been narrowed to \<^verbatim>\<open>string | undefined\<close>.\<close>

primrec string_or_undefined :: "err \<Rightarrow> string option" where
  "string_or_undefined Undefined = None"
| "string_or_undefined (Str s) = Some s"
| "string_or_undefined (Obj a) = None"

subsection \<open>The accessors\<close>

definition defaultMessage :: string where
  "defaultMessage = ''There was an error! No specific error message was provided.''"

text \<open>
  \<^verbatim>\<open>throwErr\<close> (lines 5 to 25). The case \<^const>\<open>Obj\<close> is the path past the \<^verbatim>\<open>typeof\<close> test
  (the error is neither a string nor \<^verbatim>\<open>undefined\<close>, so it is an object); the other
  case is the test's branch. \<^verbatim>\<open>if (message)\<close> holds for a string that is not empty.
  The assignment of line 18 either succeeds or throws, and when it throws, line 21 is
  not reached.
\<close>

definition throwErr ::
  "'t result \<Rightarrow> string option \<Rightarrow> 'z heap \<Rightarrow> ('t, thrown) outcome \<times> 'z heap" where
  "throwErr this msg h =
     (if \<not> ok this then
        (case error this of
           Obj a \<Rightarrow>
             (case msg of
                Some m \<Rightarrow>
                  if m \<noteq> [] then
                    if writable (h a) then (Raise (Thrown a), h(a := (h a)\<lparr>message := m\<rparr>))
                    else (Raise TypeError, h)
                  else (Raise (Thrown a), h)
              | None \<Rightarrow> (Raise (Thrown a), h))
         | e \<Rightarrow>
             (Raise (new_Error
                (js_or (js_or msg (string_or_undefined e)) (Some defaultMessage))), h))
      else (Return (data this), h))"

text \<open>
  The earlier \<^verbatim>\<open>throwErr\<close> of the same source (lines 131 to 147): the same function
  without the assignment to \<^verbatim>\<open>this.error.message\<close>.
\<close>

definition throwErr_earlier ::
  "'t result \<Rightarrow> string option \<Rightarrow> 'z heap \<Rightarrow> ('t, thrown) outcome \<times> 'z heap" where
  "throwErr_earlier this msg h =
     (if \<not> ok this then
        (case error this of
           Obj a \<Rightarrow> (Raise (Thrown a), h)
         | e \<Rightarrow>
             (Raise (new_Error
                (js_or (js_or msg (string_or_undefined e)) (Some defaultMessage))), h))
      else (Return (data this), h))"

text \<open>
  The other three accessors neither read nor write an error object, so they are stated
  over any state \<open>'s\<close> of the caller (of which the store is a part). A callback is a
  function of its argument and that state; it may change the state, and it may throw.
\<close>

type_synonym ('a, 'r, 'x, 's) callback = "'a \<Rightarrow> 's \<Rightarrow> ('r, 'x) outcome \<times> 's"

text \<open>\<^verbatim>\<open>elseDo\<close> (lines 29 to 41)\<close>

definition elseDo ::
  "'t result \<Rightarrow> (err, 't, 'x, 's) callback \<Rightarrow> 's \<Rightarrow> ('t, 'x) outcome \<times> 's" where
  "elseDo this callback s =
     (if ok this then (Return (data this), s)
      else callback (error this) s)"

text \<open>\<^verbatim>\<open>or\<close> (lines 43 to 49)\<close>

definition or_res :: "'t result \<Rightarrow> 't \<Rightarrow> 's \<Rightarrow> ('t, 'x) outcome \<times> 's" where
  "or_res this orValue s =
     (if ok this then (Return (data this), s)
      else (Return orValue, s))"

text \<open>
  \<^verbatim>\<open>and\<close> (lines 51 to 58). The function has no \<^verbatim>\<open>return\<close>: what the callback returns
  is dropped, what it throws goes on to the caller.
\<close>

definition and_res ::
  "'t result \<Rightarrow> ('t, 'r, 'x, 's) callback \<Rightarrow> 's \<Rightarrow> (unit, 'x) outcome \<times> 's" where
  "and_res this callback s =
     (if ok this then
        (case callback (data this) s of
           (Return r, s') \<Rightarrow> (Return (), s')
         | (Raise x, s') \<Rightarrow> (Raise x, s'))
      else (Return (), s))"

subsection \<open>The constructors\<close>

text \<open>
  \<^verbatim>\<open>Ok\<close> (lines 86 to 90) and \<^verbatim>\<open>Err\<close> (lines 120 to 126). A call without an argument
  passes \<^verbatim>\<open>undefined\<close>: for \<^verbatim>\<open>Err\<close> that is \<^const>\<open>Undefined\<close>, for \<^verbatim>\<open>Ok\<close> a value of
  the payload type \<open>'t\<close>, which is any type.
\<close>

definition Ok :: "'t \<Rightarrow> 't result" where
  "Ok d = Success d"

definition Err :: "err \<Rightarrow> 't result" where
  "Err e = Failure e"

subsection \<open>Fixtures\<close>


text \<open>The callback of \<^verbatim>\<open>obtainStatus\<close> in the README.\<close>

definition statusCallback :: "(err, int, 'x, 's) callback" where
  "statusCallback e s = (if e = Str ''Low'' then (Return 0, s) else (Return 1000, s))"

text \<open>A callback that counts its calls in the caller's state and returns nothing.\<close>

definition countCallback :: "('a, unit, 'x, nat) callback" where
  "countCallback x n = (Return (), Suc n)"

text \<open>A store in which every address holds \<^verbatim>\<open>new Error("Couldn't convert abc to number")\<close>.\<close>

definition abcHeap :: "unit heap" where
  "abcHeap = (\<lambda>a. \<lparr>message = ''Couldn't convert abc to number'', writable = True\<rparr>)"

text \<open>The same store with every object frozen: \<^verbatim>\<open>Object.freeze(new Error(...))\<close>.\<close>

definition frozenHeap :: "unit heap" where
  "frozenHeap = (\<lambda>a. \<lparr>message = ''Couldn't convert abc to number'', writable = False\<rparr>)"

section \<open>Properties\<close>

subsection \<open>Auxiliary facts\<close>

lemma truthy_simps:
  "truthy None = False" "truthy (Some s) = (s \<noteq> [])"
  by (simp_all add: truthy_def)

lemma defaultMessage_not_empty: "defaultMessage \<noteq> []"
  by (simp add: defaultMessage_def)

subsection \<open>\<^verbatim>\<open>throw\<close> on an absent or string error\<close>

text \<open>
  C1, as amended. For a Failure Result whose error is \<^verbatim>\<open>undefined\<close> or a string,
  \<^verbatim>\<open>throw\<close> raises a new \<^verbatim>\<open>Error\<close> and leaves the store alone. Its message is the
  override message if one is given and is not the empty string; else the string error if
  the error is a string that is not empty; else the default text.
\<close>

theorem throwErr_plain_error:
  assumes "e = Undefined \<or> e = Str s"
  shows "(msg = Some m \<and> m \<noteq> [] \<longrightarrow> throwErr (Failure e) msg h = (Raise (NewError m), h))
       \<and> ((msg = None \<or> msg = Some []) \<and> e = Str s \<and> s \<noteq> [] \<longrightarrow>
            throwErr (Failure e) msg h = (Raise (NewError s), h))
       \<and> ((msg = None \<or> msg = Some []) \<and> (e = Undefined \<or> e = Str []) \<longrightarrow>
            throwErr (Failure e) msg h = (Raise (NewError defaultMessage), h))"
  using assms by (auto simp add: throwErr_def js_or_def truthy_simps defaultMessage_not_empty)

text \<open>
  The three cases at \<^verbatim>\<open>Err("Low").throw("My Custom Message")\<close>, \<^verbatim>\<open>Err("Low").throw()\<close> and
  \<^verbatim>\<open>Err().throw()\<close>.
\<close>

theorem throwErr_plain_error_witness:
  "throwErr (Failure (Str ''Low'') :: nat result) (Some ''My Custom Message'') abcHeap
     = (Raise (NewError ''My Custom Message''), abcHeap)
   \<and> throwErr (Failure (Str ''Low'') :: nat result) None abcHeap
     = (Raise (NewError ''Low''), abcHeap)
   \<and> throwErr (Failure Undefined :: nat result) None abcHeap
     = (Raise (NewError defaultMessage), abcHeap)"
  using throwErr_plain_error [of "Str ''Low''" "''Low''" "Some ''My Custom Message''"
      "''My Custom Message''" abcHeap]
    throwErr_plain_error [of "Str ''Low''" "''Low''" None _ abcHeap]
    throwErr_plain_error [of Undefined _ None _ abcHeap]
  by simp

text \<open>
  C1 as it is written fails where the override message is given and is the empty string:
  \<^verbatim>\<open>Err("Low").throw("")\<close> raises an \<^verbatim>\<open>Error\<close> with the message \<^verbatim>\<open>"Low"\<close>, not with the
  override message \<^verbatim>\<open>""\<close>.
\<close>

theorem throwErr_empty_override_counterexample:
  "fst (throwErr (Failure (Str ''Low'') :: nat result) (Some []) abcHeap)
     = Raise (NewError ''Low'')
   \<and> fst (throwErr (Failure (Str ''Low'') :: nat result) (Some []) abcHeap)
     \<noteq> Raise (NewError [])"
  by (simp add: throwErr_def js_or_def truthy_simps)

subsection \<open>\<^verbatim>\<open>throw\<close> on an error object\<close>

text \<open>
  C2, as amended. For a Failure Result whose error is an object, \<^verbatim>\<open>throw\<close> with an
  override message that is not the empty string, where the object's \<^verbatim>\<open>message\<close> can be
  assigned to, raises that same object (its address), whose \<^verbatim>\<open>message\<close> in the store
  is now the override text; its other fields and all other objects are as before. With
  no override message, or with the empty one, it raises the object and the store is
  unchanged, whether \<^verbatim>\<open>message\<close> can be assigned to or not.
\<close>

theorem throwErr_structured_error:
  "(msg = Some m \<and> m \<noteq> [] \<and> writable (h a) \<longrightarrow>
      fst (throwErr (Failure (Obj a)) msg h) = Raise (Thrown a)
      \<and> message (snd (throwErr (Failure (Obj a)) msg h) a) = m
      \<and> writable (snd (throwErr (Failure (Obj a)) msg h) a) = writable (h a)
      \<and> error_obj.more (snd (throwErr (Failure (Obj a)) msg h) a) = error_obj.more (h a)
      \<and> (\<forall>b. b \<noteq> a \<longrightarrow> snd (throwErr (Failure (Obj a)) msg h) b = h b))
   \<and> (msg = None \<or> msg = Some [] \<longrightarrow>
      throwErr (Failure (Obj a)) msg h = (Raise (Thrown a), h))"
  by (auto simp add: throwErr_def)

text \<open>
  The test \<^verbatim>\<open>toNumber("abc").throw("My Custom Message")\<close>, with the error object at
  address 0, and \<^verbatim>\<open>throw()\<close> on an ordinary and on a frozen error object.
\<close>

theorem throwErr_structured_error_witness:
  "writable (abcHeap 0)
   \<and> fst (throwErr (Failure (Obj 0) :: nat result) (Some ''My Custom Message'') abcHeap)
     = Raise (Thrown 0)
   \<and> message (snd (throwErr (Failure (Obj 0) :: nat result) (Some ''My Custom Message'') abcHeap) 0)
     = ''My Custom Message''
   \<and> snd (throwErr (Failure (Obj 0) :: nat result) (Some ''My Custom Message'') abcHeap) 1
     = abcHeap 1
   \<and> throwErr (Failure (Obj 0) :: nat result) None abcHeap = (Raise (Thrown 0), abcHeap)
   \<and> throwErr (Failure (Obj 0) :: nat result) None frozenHeap = (Raise (Thrown 0), frozenHeap)"
proof -
  have w: "writable (abcHeap 0)"
    by (simp add: abcHeap_def)
  from w
    throwErr_structured_error [of "Some ''My Custom Message''" "''My Custom Message''" abcHeap 0]
    throwErr_structured_error [of None _ abcHeap 0]
    throwErr_structured_error [of None _ frozenHeap 0]
  show ?thesis by auto
qed

text \<open>
  Where the object's \<^verbatim>\<open>message\<close> cannot be assigned to, \<^verbatim>\<open>throw\<close> with an override
  message that is not empty does not get as far as throwing the object: the assignment
  throws a \<^verbatim>\<open>TypeError\<close>, and the store is as before. So it is on
  \<^verbatim>\<open>Err(Object.freeze(new Error(...))).throw("My Custom Message")\<close>.
\<close>

lemma throwErr_message_not_writable:
  "m \<noteq> [] \<Longrightarrow> \<not> writable (h a) \<Longrightarrow>
     throwErr (Failure (Obj a)) (Some m) h = (Raise TypeError, h)"
  by (simp add: throwErr_def)

lemma throwErr_frozen_example:
  "throwErr (Failure (Obj 0) :: nat result) (Some ''My Custom Message'') frozenHeap
     = (Raise TypeError, frozenHeap)"
  by (simp add: throwErr_def frozenHeap_def)

text \<open>
  C2 as it is written fails where the override message is the empty string:
  \<^verbatim>\<open>toNumber("abc").throw("")\<close> leaves the object's message as it was, and that is not
  the override text \<^verbatim>\<open>""\<close>.
\<close>

theorem throwErr_empty_override_object_counterexample:
  "message (snd (throwErr (Failure (Obj 0) :: nat result) (Some []) abcHeap) 0) \<noteq> []"
  by (simp add: throwErr_def abcHeap_def)

subsection \<open>\<^verbatim>\<open>throw\<close> on a Success Result\<close>

text \<open>
  C3. On a Success Result \<^verbatim>\<open>throw\<close> returns the payload as it is, whatever the override
  message, throws nothing and leaves the store as it was.
\<close>

theorem throwErr_Success: "throwErr (Success v) msg h = (Return v, h)"
  by (simp add: throwErr_def)

subsection \<open>\<^verbatim>\<open>or\<close>\<close>

text \<open>
  C4. \<^verbatim>\<open>or\<close> returns the payload of a Success Result and the fallback value on a
  Failure Result. It never throws, it leaves the state as it was, and on a Failure Result
  the outcome is the same for every error.
\<close>

theorem or_res_spec:
  "or_res (Success v) orValue s = (Return v, s)
   \<and> or_res (Failure e) orValue s = (Return orValue, s)
   \<and> or_res (Failure e) orValue s = or_res (Failure e') orValue s"
  by (simp add: or_res_def)

subsection \<open>\<^verbatim>\<open>else\<close>\<close>


subsection \<open>\<^verbatim>\<open>and\<close>\<close>


subsection \<open>\<^verbatim>\<open>Ok\<close> and \<^verbatim>\<open>Err\<close>\<close>

text \<open>
  C7. \<^verbatim>\<open>Ok(v)\<close> is a Result with \<^verbatim>\<open>ok\<close> true whose \<^verbatim>\<open>data\<close> is \<open>v\<close>, and \<^verbatim>\<open>Err(e)\<close> is
  one with \<^verbatim>\<open>ok\<close> false whose \<^verbatim>\<open>error\<close> is \<open>e\<close> (for an error object, the same address).
  Both are functions of their argument alone: they take no state and have no outcome
  other than the Result.
\<close>

theorem Ok_Err_spec:
  "ok (Ok v) \<and> data (Ok v) = v \<and> \<not> ok (Err e) \<and> error (Err e) = e"
  by (simp add: Ok_def Err_def)

subsection \<open>Which accessors throw\<close>

text \<open>
  C8. With callbacks that never throw, \<^verbatim>\<open>or\<close>, \<^verbatim>\<open>else\<close> and \<^verbatim>\<open>and\<close> return on every
  Result, while \<^verbatim>\<open>throw\<close> raises on every Failure Result.
\<close>

theorem only_throwErr_raises:
  assumes "\<forall>x s. \<exists>y. fst (cb x s) = Return y"
    and "\<forall>x s. \<exists>y. fst (cb' x s) = Return y"
  shows "(\<exists>y. fst (or_res this orValue s) = Return y)
       \<and> (\<exists>y. fst (elseDo this cb s) = Return y)
       \<and> fst (and_res this cb' s) = Return ()
       \<and> (\<exists>x. fst (throwErr (Failure e) msg h) = Raise x)"
proof -
  have "\<exists>y. fst (or_res this orValue s) = Return y"
    by (simp add: or_res_def)
  moreover have "\<exists>y. fst (elseDo this cb s) = Return y"
    using assms(1) by (simp add: elseDo_def)
  moreover have "fst (and_res this cb' s) = Return ()"
  proof (cases "ok this")
    case True
    obtain y where "fst (cb' (data this) s) = Return y"
      using assms(2) by blast
    with True show ?thesis
      by (cases "cb' (data this) s") (simp add: and_res_def)
  next
    case False
    then show ?thesis by (simp add: and_res_def)
  qed
  moreover have "\<exists>x. fst (throwErr (Failure e) msg h) = Raise x"
    by (cases e; cases msg) (simp_all add: throwErr_def)
  ultimately show ?thesis by blast
qed

text \<open>
  The README's \<^verbatim>\<open>obtainStatus\<close> callback and a counting callback never throw; the
  accessors on \<^verbatim>\<open>Err("High")\<close> and on \<^verbatim>\<open>Ok(201)\<close>.
\<close>

theorem only_throwErr_raises_witness:
  "(\<forall>e s. \<exists>y. fst ((statusCallback :: (err, int, thrown, nat) callback) e s) = Return y)
   \<and> (\<forall>x s. \<exists>y. fst ((countCallback :: (int, unit, thrown, nat) callback) x s) = Return y)
   \<and> (\<exists>y. fst (or_res (Failure (Str ''High'')) (0::int) (0::nat))
          = (Return y :: (int, thrown) outcome))
   \<and> (\<exists>y. fst (elseDo (Failure (Str ''High''))
          (statusCallback :: (err, int, thrown, nat) callback) 0) = Return y)
   \<and> fst (and_res (Success 201) (countCallback :: (int, unit, thrown, nat) callback) 0)
        = Return ()
   \<and> (\<exists>x. fst (throwErr (Failure (Str ''High'') :: int result) None abcHeap) = Raise x)"
proof -
  have cb: "\<forall>e s. \<exists>y.
      fst ((statusCallback :: (err, int, thrown, nat) callback) e s) = Return y"
    by (simp add: statusCallback_def)
  have cb': "\<forall>x s. \<exists>y.
      fst ((countCallback :: (int, unit, thrown, nat) callback) x s) = Return y"
    by (simp add: countCallback_def)
  from cb cb'
    only_throwErr_raises [OF cb cb', of "Failure (Str ''High'')" 0 0 "Str ''High''" None abcHeap]
    only_throwErr_raises [OF cb cb', of "Success 201" 0 0 "Str ''High''" None abcHeap]
  show ?thesis by blast
qed

subsection \<open>The empty string\<close>

text \<open>
  C9. \<^verbatim>\<open>throw\<close> takes the empty string for an absent value. On a Failure Result whose
  error is \<^verbatim>\<open>""\<close>, with no override message, it raises the default text, which is not
  empty. The override message \<^verbatim>\<open>""\<close> does what no override message does: on a string
  error, on an error object, and on every Result.
\<close>

theorem throwErr_empty_string_absent:
  "throwErr (Failure (Str [])) None h = (Raise (NewError defaultMessage), h)
   \<and> defaultMessage \<noteq> []
   \<and> throwErr (Failure (Str s)) (Some []) h = throwErr (Failure (Str s)) None h
   \<and> throwErr (Failure (Obj a)) (Some []) h = throwErr (Failure (Obj a)) None h
   \<and> throwErr this (Some []) h = throwErr this None h"
  by (simp add: throwErr_def js_or_def truthy_simps defaultMessage_not_empty split: err.split)

subsection \<open>The two variants of \<^verbatim>\<open>throwErr\<close>\<close>

text \<open>
  C10, as amended. The earlier \<^verbatim>\<open>throwErr\<close> never changes the store. The current one
  and the earlier one are equal, in what they return or raise and in the store they
  leave, on a Success Result, on an absent or string error, and on an error object when
  the override message is absent or empty. On an error object whose \<^verbatim>\<open>message\<close> can be
  assigned to, with an override message that is not empty, both raise that same object;
  the current one leaves the store with the object's \<^verbatim>\<open>message\<close> set to the override
  text, the earlier one leaves the store, and so the object, as it was.
\<close>

theorem throwErr_earlier_agreement:
  fixes this :: "'t result" and v :: 't
  shows "snd (throwErr_earlier this msg h) = h
   \<and> throwErr (Success v) msg h = throwErr_earlier (Success v) msg h
   \<and> throwErr (Failure Undefined :: 't result) msg h = throwErr_earlier (Failure Undefined) msg h
   \<and> throwErr (Failure (Str s) :: 't result) msg h = throwErr_earlier (Failure (Str s)) msg h
   \<and> throwErr (Failure (Obj a) :: 't result) None h = throwErr_earlier (Failure (Obj a)) None h
   \<and> throwErr (Failure (Obj a) :: 't result) (Some []) h
       = throwErr_earlier (Failure (Obj a)) (Some []) h
   \<and> (writable (h a) \<longrightarrow>
        fst (throwErr (Failure (Obj a) :: 't result) (Some (c # cs)) h) = Raise (Thrown a)
        \<and> fst (throwErr_earlier (Failure (Obj a) :: 't result) (Some (c # cs)) h)
            = Raise (Thrown a)
        \<and> snd (throwErr (Failure (Obj a) :: 't result) (Some (c # cs)) h)
            = h(a := (h a)\<lparr>message := c # cs\<rparr>)
        \<and> snd (throwErr_earlier (Failure (Obj a) :: 't result) (Some (c # cs)) h) = h)"
  by (simp add: throwErr_def throwErr_earlier_def split: err.split option.split)

text \<open>The two variants on \<^verbatim>\<open>toNumber("abc").throw("My Custom Message")\<close>.\<close>

theorem throwErr_earlier_agreement_witness:
  "writable (abcHeap 0)
   \<and> fst (throwErr (Failure (Obj 0) :: nat result) (Some ''My Custom Message'') abcHeap)
     = Raise (Thrown 0)
   \<and> fst (throwErr_earlier (Failure (Obj 0) :: nat result) (Some ''My Custom Message'') abcHeap)
     = Raise (Thrown 0)
   \<and> snd (throwErr (Failure (Obj 0) :: nat result) (Some ''My Custom Message'') abcHeap)
     = abcHeap(0 := (abcHeap 0)\<lparr>message := ''My Custom Message''\<rparr>)
   \<and> snd (throwErr_earlier (Failure (Obj 0) :: nat result) (Some ''My Custom Message'') abcHeap)
     = abcHeap"
proof -
  have w: "writable (abcHeap 0)"
    by (simp add: abcHeap_def)
  from w
    throwErr_earlier_agreement [where h = abcHeap and a = 0 and c = "CHR ''M''"
      and cs = "''y Custom Message''" and this = "Failure (Obj 0) :: nat result"
      and msg = "Some ''My Custom Message''" and v = 0 and s = "[]"]
  show ?thesis by simp
qed

text \<open>
  Where the object's \<^verbatim>\<open>message\<close> cannot be assigned to and the override message is not
  empty, the two variants raise different values: the current one the \<^verbatim>\<open>TypeError\<close> of
  the failed assignment, the earlier one the object.
\<close>

lemma throwErr_earlier_message_not_writable:
  "\<not> writable (h a) \<Longrightarrow>
     throwErr (Failure (Obj a)) (Some (c # cs)) h = (Raise TypeError, h)
     \<and> throwErr_earlier (Failure (Obj a)) (Some (c # cs)) h = (Raise (Thrown a), h)"
  by (simp add: throwErr_def throwErr_earlier_def)

text \<open>
  C10 as it is written fails: on \<^verbatim>\<open>toNumber("abc").throw("My Custom Message")\<close> the two
  variants differ, the raised object's message being the override text after the current
  one and the original text after the earlier one.
\<close>

theorem throwErr_earlier_counterexample:
  "throwErr (Failure (Obj 0) :: nat result) (Some ''My Custom Message'') abcHeap
     \<noteq> throwErr_earlier (Failure (Obj 0)) (Some ''My Custom Message'') abcHeap
   \<and> message (snd (throwErr (Failure (Obj 0) :: nat result)
        (Some ''My Custom Message'') abcHeap) 0)
     = ''My Custom Message''
   \<and> message (snd (throwErr_earlier (Failure (Obj 0) :: nat result)
        (Some ''My Custom Message'') abcHeap) 0)
     = ''Couldn't convert abc to number''"
  by (simp add: throwErr_def throwErr_earlier_def abcHeap_def fun_eq_iff)

end
